theory Spec2Isabelle
  imports Complex_Main
begin

section \<open>The parameter interface of the Hamiltonian (core/src/Spirit/Hamiltonian.cpp)\<close>

text \<open>
  The file embeds the twenty functions of \<^verbatim>\<open>Hamiltonian.cpp\<close>: seven setters and
  thirteen getters that act on the Hamiltonian of one image of a \<^verbatim>\<open>State\<close>.

  Conventions of the embedding.
  \<^item> \<^verbatim>\<open>scalar\<close> and \<^verbatim>\<open>float\<close> are the real numbers: arithmetic is exact, so rounding,
    overflow and NaN are outside the model, and the casts between the two are the identity.
  \<^item> A C \<^verbatim>\<open>int\<close> is an \<open>int\<close>; the one narrowing conversion of the source (a vector's
    size written to an \<^verbatim>\<open>int\<close>) wraps at 32 bits, see \<open>int_of_size\<close>.
  \<^item> A pointer argument (\<^verbatim>\<open>const float * normal\<close>, \<^verbatim>\<open>float * jij\<close>, ...) is the memory
    seen through it, a function from the offset to the value stored there. An output
    pointer is such a function passed in and returned updated. Null pointers are not
    modelled.
  \<^item> The images live in a store (\<open>images\<close>, from an address to the image), so that two
    index pairs that resolve to the same image see the same Hamiltonian.
  \<^item> An exception is a value: a fallible step returns \<open>exception + 'a\<close>, and every
    \<^verbatim>\<open>try { ... } catch( ... ) { ... }\<close> is a case distinction on that result.
  \<^item> The calls are followed in one thread: \<^verbatim>\<open>Lock()\<close> takes the mutex of the image and
    \<^verbatim>\<open>Unlock()\<close> frees it; waiting for another thread is outside the model.
\<close>

subsection \<open>Vectors\<close>

type_synonym scalar = real

type_synonym Vector3 = "scalar \<times> scalar \<times> scalar"

type_synonym 'a ptr = "nat \<Rightarrow> 'a"

definition squaredNorm :: "Vector3 \<Rightarrow> scalar" where
  "squaredNorm v = (case v of (x, y, z) \<Rightarrow> x * x + y * y + z * z)"

definition Vector3_norm :: "Vector3 \<Rightarrow> scalar" where
  "Vector3_norm v = sqrt (squaredNorm v)"

definition Vector3_scale :: "scalar \<Rightarrow> Vector3 \<Rightarrow> Vector3" where
  "Vector3_scale c v = (case v of (x, y, z) \<Rightarrow> (c * x, c * y, c * z))"

definition Vector3_div :: "Vector3 \<Rightarrow> scalar \<Rightarrow> Vector3" where
  "Vector3_div v c = (case v of (x, y, z) \<Rightarrow> (x / c, y / c, z / c))"

text \<open>
  Modelled from the spec: \<^verbatim>\<open>Vector3::normalize()\<close> belongs to the linear algebra
  library, which is not among the sources. The spec has direction vectors
  "normalized to unit length"; the library divides the vector by its norm when the
  squared norm is positive and leaves it as it is otherwise.
\<close>

definition Vector3_normalize :: "Vector3 \<Rightarrow> Vector3" where
  "Vector3_normalize v =
     (let z = squaredNorm v in if z > 0 then Vector3_div v (sqrt z) else v)"

text \<open>A constructor \<^verbatim>\<open>std::vector<T>(n)\<close> or \<^verbatim>\<open>std::vector<T>(n, x)\<close> called with an
  \<^verbatim>\<open>int\<close>: the count is converted to an unsigned size, so a negative one asks for more
  than \<^verbatim>\<open>max_size()\<close> elements and the constructor throws.\<close>

datatype exception = Exception string

definition vector_n :: "int \<Rightarrow> 'a \<Rightarrow> exception + 'a list" where
  "vector_n n x =
     (if n < 0 then Inl (Exception ''cannot create std::vector larger than max_size()'')
      else Inr (replicate (nat n) x))"

text \<open>The range constructor \<^verbatim>\<open>scalarfield(p, p + n)\<close> copies the \<open>n\<close> values stored at
  \<open>p\<close>. With \<open>n < 0\<close> the range is not a valid one; the distance, converted to a size,
  exceeds \<^verbatim>\<open>max_size()\<close> and the constructor throws.\<close>

definition vector_range :: "'a ptr \<Rightarrow> int \<Rightarrow> exception + 'a list" where
  "vector_range p n =
     (if n < 0 then Inl (Exception ''cannot create std::vector larger than max_size()'')
      else Inr (map p [0..<nat n]))"

text \<open>The value of a \<^verbatim>\<open>size_t\<close> written to an \<^verbatim>\<open>int\<close>: reduced modulo \<open>2^32\<close> into the
  signed range.\<close>

definition int_of_size :: "nat \<Rightarrow> int" where
  "int_of_size n =
     (let m = int n mod 2 ^ 32 in if m < 2 ^ 31 then m else m - 2 ^ 32)"

subsection \<open>The Hamiltonians\<close>

text \<open>A pair of sites: the two indices and the translation to the periodic image.\<close>

record Pair =
  pair_i :: int
  pair_j :: int
  pair_translations :: "int \<times> int \<times> int"

text \<open>The tags of the cached list of active energy contributions.\<close>

datatype contribution = Zeeman | Anisotropy | Exchange | DMI | DDI

text \<open>
  Modelled from the spec: the class declarations \<^verbatim>\<open>Hamiltonian\<close> and
  \<^verbatim>\<open>Hamiltonian_Heisenberg\<close> are not among the sources. The base class carries the
  three periodic boundary flags; the Heisenberg fields are the ones that
  \<^verbatim>\<open>Hamiltonian.cpp\<close> reads and writes, and \<open>energy_contributions\<close> is the spec's cached
  list of active energy contributions. \<^verbatim>\<open>Hamiltonian_Gaussian\<close> is declared in
  \<^verbatim>\<open>Hamiltonian_Gaussian.hpp\<close>.
\<close>

record Hamiltonian =
  boundary_conditions :: "bool \<times> bool \<times> bool"

record Hamiltonian_Heisenberg = Hamiltonian +
  mu_s :: "scalar list"
  external_field_magnitude :: scalar
  external_field_normal :: Vector3
  anisotropy_indices :: "int list"
  anisotropy_magnitudes :: "scalar list"
  anisotropy_normals :: "Vector3 list"
  exchange_shell_magnitudes :: "scalar list"
  exchange_pairs_in :: "Pair list"
  exchange_magnitudes_in :: "scalar list"
  dmi_shell_magnitudes :: "scalar list"
  dmi_shell_chirality :: int
  dmi_pairs_in :: "Pair list"
  dmi_magnitudes_in :: "scalar list"
  dmi_normals_in :: "Vector3 list"
  ddi_cutoff_radius :: scalar
  ddi_pairs :: "Pair list"
  ddi_magnitudes :: "scalar list"
  ddi_normals :: "Vector3 list"
  energy_contributions :: "contribution list"

record Hamiltonian_Gaussian = Hamiltonian +
  n_gaussians :: int
  amplitude :: "scalar list"
  width :: "scalar list"
  center :: "Vector3 list"

text \<open>The object behind \<^verbatim>\<open>std::shared_ptr<Hamiltonian>\<close>: one of the two subclasses.\<close>

datatype Hamiltonian_object =
  Heisenberg Hamiltonian_Heisenberg
| Gaussian Hamiltonian_Gaussian

text \<open>
  Modelled from the spec: the bodies of the virtual \<^verbatim>\<open>Name()\<close> are not among the
  sources. \<^verbatim>\<open>Name()\<close> "identifies the concrete variant", and the interface tests it
  against \<^verbatim>\<open>"Heisenberg"\<close>.
\<close>

fun Name :: "Hamiltonian_object \<Rightarrow> string" where
  "Name (Heisenberg ham) = ''Heisenberg''"
| "Name (Gaussian ham) = ''Gaussian''"

text \<open>The boundary flags are fields of the base class: read and written through the
  base pointer, whatever the subclass.\<close>

fun get_boundary_conditions :: "Hamiltonian_object \<Rightarrow> bool \<times> bool \<times> bool" where
  "get_boundary_conditions (Heisenberg ham) = boundary_conditions ham"
| "get_boundary_conditions (Gaussian ham) = boundary_conditions ham"

fun set_boundary_conditions ::
  "bool \<times> bool \<times> bool \<Rightarrow> Hamiltonian_object \<Rightarrow> Hamiltonian_object" where
  "set_boundary_conditions b (Heisenberg ham) = Heisenberg (ham\<lparr>boundary_conditions := b\<rparr>)"
| "set_boundary_conditions b (Gaussian ham) = Gaussian (ham\<lparr>boundary_conditions := b\<rparr>)"

text \<open>
  Modelled from the spec: what the cache holds after a refresh. The absent methods
  \<^verbatim>\<open>Update_Energy_Contributions()\<close> and \<^verbatim>\<open>Update_Interactions()\<close> recompute derived data;
  of that data the spec names the "cached list of active energy contributions", the
  tags of the terms that are currently non-trivial (a term whose parameter array is
  empty is skipped). Neither method writes a parameter field.
\<close>

definition active_contributions :: "Hamiltonian_Heisenberg \<Rightarrow> contribution list" where
  "active_contributions ham =
     (if external_field_magnitude ham > 0 then [Zeeman] else []) @
     (if anisotropy_indices ham \<noteq> [] then [Anisotropy] else []) @
     (if exchange_shell_magnitudes ham \<noteq> [] \<or> exchange_pairs_in ham \<noteq> []
      then [Exchange] else []) @
     (if dmi_shell_magnitudes ham \<noteq> [] \<or> dmi_pairs_in ham \<noteq> [] then [DMI] else []) @
     (if ddi_pairs ham \<noteq> [] then [DDI] else [])"

text \<open>Modelled from the spec: \<^verbatim>\<open>Hamiltonian_Heisenberg::Update_Energy_Contributions()\<close>,
  absent from the sources, "recomputes the cached active-contributions list".\<close>

definition Update_Energy_Contributions :: "Hamiltonian_Heisenberg \<Rightarrow> Hamiltonian_Heisenberg" where
  "Update_Energy_Contributions ham = ham\<lparr>energy_contributions := active_contributions ham\<rparr>"

text \<open>Modelled from the spec: \<^verbatim>\<open>Hamiltonian_Heisenberg::Update_Interactions()\<close>, absent
  from the sources, re-derives the pair data, which is not represented here, and
  refreshes the cache of active contributions.\<close>

definition Update_Interactions :: "Hamiltonian_Heisenberg \<Rightarrow> Hamiltonian_Heisenberg" where
  "Update_Interactions ham = Update_Energy_Contributions ham"

subsection \<open>Images, the state and the log\<close>

text \<open>
  Modelled from the spec: \<^verbatim>\<open>Geometry\<close>, \<^verbatim>\<open>Spin_System\<close>, \<^verbatim>\<open>State\<close>, \<^verbatim>\<open>from_indices\<close>, \<^verbatim>\<open>Log\<close>
  and \<^verbatim>\<open>spirit_handle_exception_api\<close> are not among the sources.
  \<^item> Of the geometry the interface reads \<^verbatim>\<open>n_cell_atoms\<close>; the lattice itself, which only
    the pair generator reads, is the extension part \<open>'g\<close> of the record.
  \<^item> An image has its number of spins, its geometry, its Hamiltonian and its mutex.
  \<^item> \<^verbatim>\<open>from_indices\<close> is the "lookup by image/chain index": \<open>resolution\<close> gives the
    address of the image an index pair stands for, and the lookup throws where there is
    none.
  \<^item> The log is the list of the entries sent so far; an entry keeps its level, its
    sender, its message and the two indices. A message keeps its formatted arguments as
    they are instead of their decimal rendering.
  \<^item> \<^verbatim>\<open>spirit_handle_exception_api\<close> turns the exception in flight into "a logged error
    tagged with the originating image/chain identity" and returns.
\<close>

record Geometry =
  n_cell_atoms :: int

record 'g Spin_System =
  nos :: int
  geometry :: "'g Geometry_scheme"
  hamiltonian :: Hamiltonian_object
  locked :: bool

datatype Log_Level = Log_All | Error | Warning | Parameter | Info | Debug

datatype Log_Sender = API | UI

datatype fragment = Text string | Num scalar | Count int | Flag bool

record LogEntry =
  entry_level :: Log_Level
  entry_sender :: Log_Sender
  entry_message :: "fragment list"
  entry_idx_image :: int
  entry_idx_chain :: int

record 'g State =
  resolution :: "int \<Rightarrow> int \<Rightarrow> nat option"
  images :: "nat \<Rightarrow> 'g Spin_System"
  log_entries :: "LogEntry list"

text \<open>Modelled from the spec: \<^verbatim>\<open>from_indices\<close>, absent from the sources, is the "lookup by
  image/chain index"; it throws when the pair stands for no image.\<close>

definition from_indices :: "'g State \<Rightarrow> int \<Rightarrow> int \<Rightarrow> exception + nat" where
  "from_indices state idx_image idx_chain =
     (case resolution state idx_image idx_chain of
        None \<Rightarrow> Inl (Exception ''from_indices: no such image'')
      | Some img \<Rightarrow> Inr img)"

text \<open>Modelled from the spec: \<^verbatim>\<open>Log\<close>, absent from the sources, hands a notice to "the
  logging collaborator": the entry is appended to the log.\<close>

definition Log ::
  "Log_Level \<Rightarrow> Log_Sender \<Rightarrow> fragment list \<Rightarrow> int \<Rightarrow> int \<Rightarrow> 'g State \<Rightarrow> 'g State" where
  "Log lvl snd_by msg idx_image idx_chain state =
     state\<lparr>log_entries := log_entries state @
       [\<lparr>entry_level = lvl, entry_sender = snd_by, entry_message = msg,
         entry_idx_image = idx_image, entry_idx_chain = idx_chain\<rparr>]\<rparr>"

text \<open>Modelled from the spec: \<^verbatim>\<open>spirit_handle_exception_api\<close>, absent from the sources,
  converts the fault into "a logged error tagged with the originating image/chain
  identity" and returns to the \<^verbatim>\<open>catch\<close> block that called it.\<close>

definition spirit_handle_exception_api ::
  "exception \<Rightarrow> int \<Rightarrow> int \<Rightarrow> 'g State \<Rightarrow> 'g State" where
  "spirit_handle_exception_api e idx_image idx_chain state =
     (case e of Exception what \<Rightarrow> Log Error API [Text what] idx_image idx_chain state)"

definition Lock :: "nat \<Rightarrow> 'g State \<Rightarrow> 'g State" where
  "Lock img state =
     state\<lparr>images := (images state)(img := (images state img)\<lparr>locked := True\<rparr>)\<rparr>"

definition Unlock :: "nat \<Rightarrow> 'g State \<Rightarrow> 'g State" where
  "Unlock img state =
     state\<lparr>images := (images state)(img := (images state img)\<lparr>locked := False\<rparr>)\<rparr>"

text \<open>A write through \<^verbatim>\<open>image->hamiltonian\<close>.\<close>

definition store_hamiltonian :: "nat \<Rightarrow> Hamiltonian_object \<Rightarrow> 'g State \<Rightarrow> 'g State" where
  "store_hamiltonian img ham state =
     state\<lparr>images := (images state)(img := (images state img)\<lparr>hamiltonian := ham\<rparr>)\<rparr>"

subsection \<open>Setters\<close>

text \<open>
  Six of the seven setters share one frame, word for word: resolve the image, lock it,
  run the body inside an inner \<^verbatim>\<open>try\<close>, unlock, and hand whatever was thrown to
  \<^verbatim>\<open>spirit_handle_exception_api\<close>. In every body of this file the steps that can throw
  come before the first write, so the state at the inner \<^verbatim>\<open>catch\<close> is the locked state.
\<close>

definition locked_try ::
  "'g State \<Rightarrow> int \<Rightarrow> int \<Rightarrow> (nat \<Rightarrow> 'g State \<Rightarrow> exception + 'g State) \<Rightarrow> 'g State" where
  "locked_try state idx_image idx_chain body =
     (case from_indices state idx_image idx_chain of
        Inl e \<Rightarrow> spirit_handle_exception_api e idx_image idx_chain state
      | Inr img \<Rightarrow>
          let state1 = Lock img state;
              state2 = (case body img state1 of
                          Inl e \<Rightarrow> spirit_handle_exception_api e idx_image idx_chain state1
                        | Inr state' \<Rightarrow> state')
          in Unlock img state2)"

text \<open>The branch taken when \<^verbatim>\<open>Name()\<close> is \<^verbatim>\<open>"Heisenberg"\<close> casts the pointer to the
  subclass. On the other subclass the test fails, so the second case below is never
  reached.\<close>

definition on_Heisenberg ::
  "nat \<Rightarrow> 'g State \<Rightarrow> string \<Rightarrow> int \<Rightarrow> int \<Rightarrow>
   (Hamiltonian_Heisenberg \<Rightarrow> exception + 'g State) \<Rightarrow> exception + 'g State" where
  "on_Heisenberg img state what idx_image idx_chain set_it =
     (if Name (hamiltonian (images state img)) = ''Heisenberg'' then
        (case hamiltonian (images state img) of
           Heisenberg ham \<Rightarrow> set_it ham
         | Gaussian ham \<Rightarrow> Inr state)
      else Inr (Log Warning API
                  [Text (what @ Name (hamiltonian (images state img)))]
                  idx_image idx_chain state))"

definition Hamiltonian_Set_Boundary_Conditions ::
  "'g State \<Rightarrow> bool ptr \<Rightarrow> int \<Rightarrow> int \<Rightarrow> 'g State" where
  "Hamiltonian_Set_Boundary_Conditions state periodical idx_image idx_chain =
     (case from_indices state idx_image idx_chain of
        Inl e \<Rightarrow> spirit_handle_exception_api e idx_image idx_chain state
      | Inr img \<Rightarrow>
          let state1 = Lock img state;
              state2 = store_hamiltonian img
                         (set_boundary_conditions (periodical 0, periodical 1, periodical 2)
                            (hamiltonian (images state1 img))) state1;
              state3 = Unlock img state2
          in Log Info API
               [Text ''Set boundary conditions to '', Flag (periodical 0), Text '' '',
                Flag (periodical 1), Text '' '', Flag (periodical 2)]
               idx_image idx_chain state3)"

definition Hamiltonian_Set_mu_s :: "'g State \<Rightarrow> scalar \<Rightarrow> int \<Rightarrow> int \<Rightarrow> 'g State" where
  "Hamiltonian_Set_mu_s state mu_s_new idx_image idx_chain =
     locked_try state idx_image idx_chain (\<lambda>img state.
       on_Heisenberg img state ''mu_s cannot be set on '' idx_image idx_chain
         (\<lambda>ham.
            let ham = ham\<lparr>mu_s := map (\<lambda>m. mu_s_new) (mu_s ham)\<rparr>
            in Inr (Log Info API [Text ''Set mu_s to '', Num mu_s_new] idx_image idx_chain
                      (store_hamiltonian img (Heisenberg ham) state))))"

text \<open>
  Modelled from the spec: \<^verbatim>\<open>Constants::mu_B\<close> (\<^verbatim>\<open>utility/Constants.hpp\<close>) is not among the
  sources. It is the "fixed conversion constant" applied to the field magnitude, the
  Bohr magneton in meV/T. The proofs below use of it only that it is positive.
\<close>

definition mu_B :: scalar where
  "mu_B = 0.057883817555"

definition Hamiltonian_Set_Field ::
  "'g State \<Rightarrow> scalar \<Rightarrow> scalar ptr \<Rightarrow> int \<Rightarrow> int \<Rightarrow> 'g State" where
  "Hamiltonian_Set_Field state magnitude normal idx_image idx_chain =
     locked_try state idx_image idx_chain (\<lambda>img state.
       on_Heisenberg img state ''External field cannot be set on '' idx_image idx_chain
         (\<lambda>ham.
            let new_normal = Vector3_normalize (normal 0, normal 1, normal 2);
                ham = ham\<lparr>external_field_magnitude := magnitude * mu_B\<rparr>;
                ham = ham\<lparr>external_field_normal := new_normal\<rparr>;
                ham = Update_Energy_Contributions ham
            in Inr (Log Info API
                      [Text ''Set external field to '', Num magnitude, Text '', direction ('',
                       Num (normal 0), Text '', '', Num (normal 1), Text '', '',
                       Num (normal 2), Text '')'']
                      idx_image idx_chain
                      (store_hamiltonian img (Heisenberg ham) state))))"

definition Hamiltonian_Set_Anisotropy ::
  "'g State \<Rightarrow> scalar \<Rightarrow> scalar ptr \<Rightarrow> int \<Rightarrow> int \<Rightarrow> 'g State" where
  "Hamiltonian_Set_Anisotropy state magnitude normal idx_image idx_chain =
     locked_try state idx_image idx_chain (\<lambda>img state.
       on_Heisenberg img state ''Anisotropy cannot be set on '' idx_image idx_chain
         (\<lambda>ham.
            let nos' = nos (images state img);
                n_cell_atoms' = n_cell_atoms (geometry (images state img))
            in case vector_n n_cell_atoms' (0 :: int) of
                 Inl e \<Rightarrow> Inl e
               | Inr new_indices \<Rightarrow>
            (case vector_n n_cell_atoms' (0 :: scalar) of
                 Inl e \<Rightarrow> Inl e
               | Inr new_magnitudes \<Rightarrow>
            (let (new_indices, new_magnitudes) =
                   fold (\<lambda>i (ind, mag). (ind[i := int i], mag[i := magnitude]))
                     [0..<nat n_cell_atoms'] (new_indices, new_magnitudes);
                 new_normal = Vector3_normalize (normal 0, normal 1, normal 2)
             in case vector_n nos' new_normal of
                  Inl e \<Rightarrow> Inl e
                | Inr new_normals \<Rightarrow>
                    let ham = ham\<lparr>anisotropy_indices := new_indices\<rparr>;
                        ham = ham\<lparr>anisotropy_magnitudes := new_magnitudes\<rparr>;
                        ham = ham\<lparr>anisotropy_normals := new_normals\<rparr>;
                        ham = Update_Energy_Contributions ham
                    in Inr (Log Info API
                              [Text ''Set anisotropy to '', Num magnitude,
                               Text '', direction ('', Num (normal 0), Text '', '',
                               Num (normal 1), Text '', '', Num (normal 2), Text '')'']
                              idx_image idx_chain
                              (store_hamiltonian img (Heisenberg ham) state))))))"

definition Hamiltonian_Set_Exchange ::
  "'g State \<Rightarrow> int \<Rightarrow> scalar ptr \<Rightarrow> int \<Rightarrow> int \<Rightarrow> 'g State" where
  "Hamiltonian_Set_Exchange state n_shells jij idx_image idx_chain =
     locked_try state idx_image idx_chain (\<lambda>img state.
       on_Heisenberg img state ''Exchange cannot be set on '' idx_image idx_chain
         (\<lambda>ham.
            case vector_range jij n_shells of
              Inl e \<Rightarrow> Inl e
            | Inr shells \<Rightarrow>
                let ham = ham\<lparr>exchange_shell_magnitudes := shells\<rparr>;
                    ham = ham\<lparr>exchange_pairs_in := []\<rparr>;
                    ham = ham\<lparr>exchange_magnitudes_in := []\<rparr>;
                    ham = Update_Interactions ham;
                    message = [Text ''Set exchange to '', Count n_shells, Text '' shells''];
                    message = (if n_shells > 0
                               then message @ [Text '' Jij[0] = '', Num (jij 0)]
                               else message)
                in Inr (Log Info API message idx_image idx_chain
                          (store_hamiltonian img (Heisenberg ham) state))))"

definition Hamiltonian_Set_DMI ::
  "'g State \<Rightarrow> int \<Rightarrow> scalar ptr \<Rightarrow> int \<Rightarrow> int \<Rightarrow> int \<Rightarrow> 'g State" where
  "Hamiltonian_Set_DMI state n_shells dij chirality idx_image idx_chain =
     locked_try state idx_image idx_chain (\<lambda>img state.
       on_Heisenberg img state ''DMI cannot be set on '' idx_image idx_chain
         (\<lambda>ham.
            case vector_range dij n_shells of
              Inl e \<Rightarrow> Inl e
            | Inr shells \<Rightarrow>
                let ham = ham\<lparr>dmi_shell_magnitudes := shells\<rparr>;
                    ham = ham\<lparr>dmi_shell_chirality := chirality\<rparr>;
                    ham = ham\<lparr>dmi_pairs_in := []\<rparr>;
                    ham = ham\<lparr>dmi_magnitudes_in := []\<rparr>;
                    ham = ham\<lparr>dmi_normals_in := []\<rparr>;
                    ham = Update_Interactions ham;
                    message = [Text ''Set dmi to '', Count n_shells, Text '' shells''];
                    message = (if n_shells > 0
                               then message @ [Text '' Dij[0] = '', Num (dij 0)]
                               else message)
                in Inr (Log Info API message idx_image idx_chain
                          (store_hamiltonian img (Heisenberg ham) state))))"

text \<open>
  \<^verbatim>\<open>Engine::Neighbours::Get_Pairs_in_Radius\<close> and \<^verbatim>\<open>Engine::Neighbours::DDI_from_Pair\<close>
  are not among the sources: the setter takes them as parameters. Following the spec
  each is a function of its arguments, the second giving the magnitude and the normal
  of a pair. \<open>ddi_lists\<close> is the loop over the pairs: it starts from two empty vectors
  and pushes one magnitude and one normal per pair.
\<close>

definition ddi_lists ::
  "('g Geometry_scheme \<Rightarrow> Pair \<Rightarrow> scalar \<times> Vector3) \<Rightarrow> 'g Geometry_scheme \<Rightarrow> Pair list \<Rightarrow>
   scalar list \<times> Vector3 list" where
  "ddi_lists DDI_from_Pair g pairs =
     fold (\<lambda>pair (magnitudes, normals).
             let (magnitude, normal) = DDI_from_Pair g pair
             in (magnitudes @ [magnitude], normals @ [normal]))
       pairs ([], [])"

definition Hamiltonian_Set_DDI ::
  "('g Geometry_scheme \<Rightarrow> scalar \<Rightarrow> Pair list) \<Rightarrow>
   ('g Geometry_scheme \<Rightarrow> Pair \<Rightarrow> scalar \<times> Vector3) \<Rightarrow>
   'g State \<Rightarrow> scalar \<Rightarrow> int \<Rightarrow> int \<Rightarrow> 'g State" where
  "Hamiltonian_Set_DDI Get_Pairs_in_Radius DDI_from_Pair state radius idx_image idx_chain =
     locked_try state idx_image idx_chain (\<lambda>img state.
       on_Heisenberg img state ''DDI cannot be set on '' idx_image idx_chain
         (\<lambda>ham.
            let pairs = Get_Pairs_in_Radius (geometry (images state img)) radius;
                (magnitudes, normals) =
                   ddi_lists DDI_from_Pair (geometry (images state img)) pairs;
                ham = ham\<lparr>ddi_pairs := pairs\<rparr>;
                ham = ham\<lparr>ddi_magnitudes := magnitudes\<rparr>;
                ham = ham\<lparr>ddi_normals := normals\<rparr>;
                ham = Update_Energy_Contributions ham
            in Inr (Log Info API [Text ''Set ddi radius to '', Num radius] idx_image idx_chain
                      (store_hamiltonian img (Heisenberg ham) state))))"

subsection \<open>Getters\<close>

text \<open>A getter returns the state (the log may have grown) and, for each output pointer,
  what is stored behind it after the call. \<^verbatim>\<open>nullptr\<close> is \<open>None\<close>.\<close>

definition Hamiltonian_Get_Name :: "'g State \<Rightarrow> int \<Rightarrow> int \<Rightarrow> 'g State \<times> string option" where
  "Hamiltonian_Get_Name state idx_image idx_chain =
     (case from_indices state idx_image idx_chain of
        Inl e \<Rightarrow> (spirit_handle_exception_api e idx_image idx_chain state, None)
      | Inr img \<Rightarrow> (state, Some (Name (hamiltonian (images state img)))))"

definition Hamiltonian_Get_Boundary_Conditions ::
  "'g State \<Rightarrow> bool ptr \<Rightarrow> int \<Rightarrow> int \<Rightarrow> 'g State \<times> bool ptr" where
  "Hamiltonian_Get_Boundary_Conditions state periodical idx_image idx_chain =
     (case from_indices state idx_image idx_chain of
        Inl e \<Rightarrow> (spirit_handle_exception_api e idx_image idx_chain state, periodical)
      | Inr img \<Rightarrow>
          (case get_boundary_conditions (hamiltonian (images state img)) of
             (b0, b1, b2) \<Rightarrow> (state, periodical(0 := b0, 1 := b1, 2 := b2))))"

text \<open>The loop reads \<^verbatim>\<open>ham->mu_s[i]\<close> for every \<open>i\<close> below \<^verbatim>\<open>n_cell_atoms\<close>. Past the end
  of \<^verbatim>\<open>mu_s\<close> the read is undefined in the source; the model writes nothing there.\<close>

definition Hamiltonian_Get_mu_s ::
  "'g State \<Rightarrow> scalar ptr \<Rightarrow> int \<Rightarrow> int \<Rightarrow> 'g State \<times> scalar ptr" where
  "Hamiltonian_Get_mu_s state mu_s_out idx_image idx_chain =
     (case from_indices state idx_image idx_chain of
        Inl e \<Rightarrow> (spirit_handle_exception_api e idx_image idx_chain state, mu_s_out)
      | Inr img \<Rightarrow>
          (if Name (hamiltonian (images state img)) = ''Heisenberg'' then
             (case hamiltonian (images state img) of
                Heisenberg ham \<Rightarrow>
                  (state,
                   fold (\<lambda>i out. if i < length (mu_s ham) then out(i := mu_s ham ! i) else out)
                     [0..<nat (n_cell_atoms (geometry (images state img)))] mu_s_out)
              | Gaussian ham \<Rightarrow> (state, mu_s_out))
           else (state, mu_s_out)))"

definition Hamiltonian_Get_Field ::
  "'g State \<Rightarrow> scalar \<Rightarrow> scalar ptr \<Rightarrow> int \<Rightarrow> int \<Rightarrow> 'g State \<times> scalar \<times> scalar ptr" where
  "Hamiltonian_Get_Field state magnitude normal idx_image idx_chain =
     (case from_indices state idx_image idx_chain of
        Inl e \<Rightarrow> (spirit_handle_exception_api e idx_image idx_chain state, magnitude, normal)
      | Inr img \<Rightarrow>
          (if Name (hamiltonian (images state img)) = ''Heisenberg'' then
             (case hamiltonian (images state img) of
                Heisenberg ham \<Rightarrow>
                  (if external_field_magnitude ham > 0 then
                     (case external_field_normal ham of
                        (x, y, z) \<Rightarrow>
                          (state, external_field_magnitude ham / mu_B,
                           normal(0 := x, 1 := y, 2 := z)))
                   else (state, 0, normal(0 := 0, 1 := 0, 2 := 1)))
              | Gaussian ham \<Rightarrow> (state, magnitude, normal))
           else (state, magnitude, normal)))"

text \<open>With a non-empty index list the getter reads the first magnitude and the first
  normal. Where one of these two lists is empty the read is undefined in the source;
  the model leaves the outputs as they are.\<close>

definition Hamiltonian_Get_Anisotropy ::
  "'g State \<Rightarrow> scalar \<Rightarrow> scalar ptr \<Rightarrow> int \<Rightarrow> int \<Rightarrow> 'g State \<times> scalar \<times> scalar ptr" where
  "Hamiltonian_Get_Anisotropy state magnitude normal idx_image idx_chain =
     (case from_indices state idx_image idx_chain of
        Inl e \<Rightarrow> (spirit_handle_exception_api e idx_image idx_chain state, magnitude, normal)
      | Inr img \<Rightarrow>
          (if Name (hamiltonian (images state img)) = ''Heisenberg'' then
             (case hamiltonian (images state img) of
                Heisenberg ham \<Rightarrow>
                  (if length (anisotropy_indices ham) > 0 then
                     (case (anisotropy_magnitudes ham, anisotropy_normals ham) of
                        (m # ms, (x, y, z) # ns) \<Rightarrow>
                          (state, m, normal(0 := x, 1 := y, 2 := z))
                      | _ \<Rightarrow> (state, magnitude, normal))
                   else (state, 0, normal(0 := 0, 1 := 0, 2 := 1)))
              | Gaussian ham \<Rightarrow> (state, magnitude, normal))
           else (state, magnitude, normal)))"

definition Hamiltonian_Get_Exchange_Shells ::
  "'g State \<Rightarrow> int \<Rightarrow> scalar ptr \<Rightarrow> int \<Rightarrow> int \<Rightarrow> 'g State \<times> int \<times> scalar ptr" where
  "Hamiltonian_Get_Exchange_Shells state n_shells jij idx_image idx_chain =
     (case from_indices state idx_image idx_chain of
        Inl e \<Rightarrow> (spirit_handle_exception_api e idx_image idx_chain state, n_shells, jij)
      | Inr img \<Rightarrow>
          (if Name (hamiltonian (images state img)) = ''Heisenberg'' then
             (case hamiltonian (images state img) of
                Heisenberg ham \<Rightarrow>
                  (state, int_of_size (length (exchange_shell_magnitudes ham)),
                   fold (\<lambda>i out. out(i := exchange_shell_magnitudes ham ! i))
                     [0..<length (exchange_shell_magnitudes ham)] jij)
              | Gaussian ham \<Rightarrow> (state, n_shells, jij))
           else (state, n_shells, jij)))"

definition Hamiltonian_Get_Exchange_N_Pairs :: "'g State \<Rightarrow> int \<Rightarrow> int \<Rightarrow> 'g State \<times> int" where
  "Hamiltonian_Get_Exchange_N_Pairs state idx_image idx_chain =
     (case from_indices state idx_image idx_chain of
        Inl e \<Rightarrow> (spirit_handle_exception_api e idx_image idx_chain state, 0)
      | Inr img \<Rightarrow>
          (Log Warning API
             [Text (Name (hamiltonian (images state img)) @
                    '' Hamiltonian: fetching exchange pairs is not yet implemented...'')]
             idx_image idx_chain state, 0))"

definition Hamiltonian_Get_Exchange_Pairs ::
  "'g State \<Rightarrow> scalar ptr ptr \<Rightarrow> scalar ptr ptr \<Rightarrow> scalar ptr \<Rightarrow> int \<Rightarrow> int \<Rightarrow>
   'g State \<times> scalar ptr ptr \<times> scalar ptr ptr \<times> scalar ptr" where
  "Hamiltonian_Get_Exchange_Pairs state idx translations Jij idx_image idx_chain =
     (case from_indices state idx_image idx_chain of
        Inl e \<Rightarrow>
          (spirit_handle_exception_api e idx_image idx_chain state, idx, translations, Jij)
      | Inr img \<Rightarrow>
          (Log Warning API
             [Text (Name (hamiltonian (images state img)) @
                    '' Hamiltonian: fetching exchange pairs is not yet implemented...'')]
             idx_image idx_chain state, idx, translations, Jij))"

text \<open>The loop of this getter runs up to the count it has just written to
  \<^verbatim>\<open>*n_shells\<close>, which is never more than the size of the vector.\<close>

definition Hamiltonian_Get_DMI_Shells ::
  "'g State \<Rightarrow> int \<Rightarrow> scalar ptr \<Rightarrow> int \<Rightarrow> int \<Rightarrow> int \<Rightarrow>
   'g State \<times> int \<times> scalar ptr \<times> int" where
  "Hamiltonian_Get_DMI_Shells state n_shells dij chirality idx_image idx_chain =
     (case from_indices state idx_image idx_chain of
        Inl e \<Rightarrow>
          (spirit_handle_exception_api e idx_image idx_chain state, n_shells, dij, chirality)
      | Inr img \<Rightarrow>
          (if Name (hamiltonian (images state img)) = ''Heisenberg'' then
             (case hamiltonian (images state img) of
                Heisenberg ham \<Rightarrow>
                  (let n_shells = int_of_size (length (dmi_shell_magnitudes ham));
                       chirality = dmi_shell_chirality ham
                   in (state, n_shells,
                       fold (\<lambda>i out. out(i := dmi_shell_magnitudes ham ! i))
                         [0..<nat n_shells] dij,
                       chirality))
              | Gaussian ham \<Rightarrow> (state, n_shells, dij, chirality))
           else (state, n_shells, dij, chirality)))"

definition Hamiltonian_Get_DMI_N_Pairs :: "'g State \<Rightarrow> int \<Rightarrow> int \<Rightarrow> 'g State \<times> int" where
  "Hamiltonian_Get_DMI_N_Pairs state idx_image idx_chain =
     (case from_indices state idx_image idx_chain of
        Inl e \<Rightarrow> (spirit_handle_exception_api e idx_image idx_chain state, 0)
      | Inr img \<Rightarrow>
          (Log Warning API
             [Text (Name (hamiltonian (images state img)) @
                    '' Hamiltonian: fetching DMI pairs is not yet implemented...'')]
             idx_image idx_chain state, 0))"

definition Hamiltonian_Get_DDI ::
  "'g State \<Rightarrow> scalar \<Rightarrow> int \<Rightarrow> int \<Rightarrow> 'g State \<times> scalar" where
  "Hamiltonian_Get_DDI state radius idx_image idx_chain =
     (case from_indices state idx_image idx_chain of
        Inl e \<Rightarrow> (spirit_handle_exception_api e idx_image idx_chain state, radius)
      | Inr img \<Rightarrow>
          (if Name (hamiltonian (images state img)) = ''Heisenberg'' then
             (case hamiltonian (images state img) of
                Heisenberg ham \<Rightarrow> (state, ddi_cutoff_radius ham)
              | Gaussian ham \<Rightarrow> (state, radius))
           else (state, radius)))"

subsection \<open>A small state to run the interface on\<close>

text \<open>Two images in chain 0: image 0, stored at address 0, has a Heisenberg
  Hamiltonian with explicit exchange and DMI pairs and no field; image 1, stored at
  address 2, has a Gaussian one. No other index pair resolves.\<close>

definition Pair_example :: Pair where
  "Pair_example = \<lparr>pair_i = 0, pair_j = 1, pair_translations = (0, 0, 0)\<rparr>"

definition Heisenberg_example :: Hamiltonian_Heisenberg where
  "Heisenberg_example =
     \<lparr>boundary_conditions = (True, True, False),
      mu_s = [2],
      external_field_magnitude = 0,
      external_field_normal = (1, 0, 0),
      anisotropy_indices = [],
      anisotropy_magnitudes = [],
      anisotropy_normals = [],
      exchange_shell_magnitudes = [],
      exchange_pairs_in = [Pair_example],
      exchange_magnitudes_in = [10],
      dmi_shell_magnitudes = [],
      dmi_shell_chirality = 1,
      dmi_pairs_in = [Pair_example],
      dmi_magnitudes_in = [6],
      dmi_normals_in = [(0, 0, 1)],
      ddi_cutoff_radius = 0,
      ddi_pairs = [],
      ddi_magnitudes = [],
      ddi_normals = [],
      energy_contributions = [Exchange, DMI]\<rparr>"

definition Gaussian_example :: Hamiltonian_Gaussian where
  "Gaussian_example =
     \<lparr>boundary_conditions = (False, False, False),
      n_gaussians = 1, amplitude = [1], width = [1], center = [(0, 0, 1)]\<rparr>"

definition State_example :: "unit State" where
  "State_example =
     \<lparr>resolution = (\<lambda>idx_image idx_chain.
         if idx_chain = 0 \<and> idx_image = 0 then Some 0
         else if idx_chain = 0 \<and> idx_image = 1 then Some 2
         else None),
      images = (\<lambda>a.
         \<lparr>nos = 2, geometry = \<lparr>n_cell_atoms = 1\<rparr>,
          hamiltonian = (if a = 0 then Heisenberg Heisenberg_example
                         else Gaussian Gaussian_example),
          locked = False\<rparr>),
      log_entries = []\<rparr>"

text \<open>The same state with a negative number of spins in every image, which no geometry
  gives: it makes the vector constructor of the anisotropy setter throw.\<close>

definition State_negative_nos :: "unit State" where
  "State_negative_nos =
     State_example\<lparr>images := (\<lambda>a. (images State_example a)\<lparr>nos := - 1\<rparr>)\<rparr>"

text \<open>A direction along the third axis, of length 2, and a pair generator with its
  coupling: one pair inside any positive radius.\<close>

definition normal_example :: "scalar ptr" where
  "normal_example i = (if i = 2 then 2 else 0)"

definition Get_Pairs_example :: "unit Geometry_scheme \<Rightarrow> scalar \<Rightarrow> Pair list" where
  "Get_Pairs_example g radius = (if 0 < radius then [Pair_example] else [])"

definition DDI_example :: "unit Geometry_scheme \<Rightarrow> Pair \<Rightarrow> scalar \<times> Vector3" where
  "DDI_example g pair = (1 / 2, (0, 0, 1))"

section \<open>Auxiliary facts\<close>

subsection \<open>What the state operations leave alone\<close>

lemma hamiltonian_Lock [simp]:
  "hamiltonian (images (Lock img state) a) = hamiltonian (images state a)"
  by (simp add: Lock_def)

lemma hamiltonian_Unlock [simp]:
  "hamiltonian (images (Unlock img state) a) = hamiltonian (images state a)"
  by (simp add: Unlock_def)

lemma geometry_Lock [simp]: "geometry (images (Lock img state) a) = geometry (images state a)"
  by (simp add: Lock_def)

lemma geometry_Unlock [simp]:
  "geometry (images (Unlock img state) a) = geometry (images state a)"
  by (simp add: Unlock_def)

lemma nos_Lock [simp]: "nos (images (Lock img state) a) = nos (images state a)"
  by (simp add: Lock_def)

lemma nos_Unlock [simp]: "nos (images (Unlock img state) a) = nos (images state a)"
  by (simp add: Unlock_def)

lemma log_entries_Lock [simp]: "log_entries (Lock img state) = log_entries state"
  by (simp add: Lock_def)

lemma log_entries_Unlock [simp]: "log_entries (Unlock img state) = log_entries state"
  by (simp add: Unlock_def)

lemma images_Log [simp]: "images (Log lvl who msg i c state) = images state"
  by (simp add: Log_def)

lemma log_entries_Log [simp]:
  "log_entries (Log lvl who msg i c state) =
     log_entries state @
       [\<lparr>entry_level = lvl, entry_sender = who, entry_message = msg,
         entry_idx_image = i, entry_idx_chain = c\<rparr>]"
  by (simp add: Log_def)

lemma hamiltonian_store [simp]:
  "hamiltonian (images (store_hamiltonian img ham state) a) =
     (if a = img then ham else hamiltonian (images state a))"
  by (simp add: store_hamiltonian_def)

lemma geometry_store [simp]:
  "geometry (images (store_hamiltonian img ham state) a) = geometry (images state a)"
  by (simp add: store_hamiltonian_def)

lemma nos_store [simp]:
  "nos (images (store_hamiltonian img ham state) a) = nos (images state a)"
  by (simp add: store_hamiltonian_def)

lemma log_entries_store [simp]:
  "log_entries (store_hamiltonian img ham state) = log_entries state"
  by (simp add: store_hamiltonian_def)

text \<open>No operation changes which image an index pair stands for.\<close>

lemma from_indices_Lock [simp]: "from_indices (Lock img state) i c = from_indices state i c"
  by (simp add: from_indices_def Lock_def)

lemma from_indices_Unlock [simp]:
  "from_indices (Unlock img state) i c = from_indices state i c"
  by (simp add: from_indices_def Unlock_def)

lemma from_indices_Log [simp]:
  "from_indices (Log lvl who msg i' c' state) i c = from_indices state i c"
  by (simp add: from_indices_def Log_def)

lemma from_indices_store [simp]:
  "from_indices (store_hamiltonian img ham state) i c = from_indices state i c"
  by (simp add: from_indices_def store_hamiltonian_def)

subsection \<open>The frame of the setters, case by case\<close>

lemma locked_try_Inl:
  "from_indices state idx_image idx_chain = Inl e \<Longrightarrow>
   locked_try state idx_image idx_chain body =
     spirit_handle_exception_api e idx_image idx_chain state"
  by (simp add: locked_try_def)

lemma locked_try_Inr:
  "from_indices state idx_image idx_chain = Inr img \<Longrightarrow>
   locked_try state idx_image idx_chain body =
     Unlock img (case body img (Lock img state) of
                   Inl e \<Rightarrow> spirit_handle_exception_api e idx_image idx_chain (Lock img state)
                 | Inr state' \<Rightarrow> state')"
  by (simp add: locked_try_def Let_def)

lemma on_Heisenberg_other:
  "Name (hamiltonian (images state img)) \<noteq> ''Heisenberg'' \<Longrightarrow>
   on_Heisenberg img state what idx_image idx_chain set_it =
     Inr (Log Warning API [Text (what @ Name (hamiltonian (images state img)))]
            idx_image idx_chain state)"
  by (simp add: on_Heisenberg_def)

lemma on_Heisenberg_Heisenberg:
  "hamiltonian (images state img) = Heisenberg ham \<Longrightarrow>
   on_Heisenberg img state what idx_image idx_chain set_it = set_it ham"
  by (simp add: on_Heisenberg_def)

lemma unsupported_variant:
  assumes "from_indices state idx_image idx_chain = Inr img"
    and "Name (hamiltonian (images state img)) \<noteq> ''Heisenberg''"
  shows "locked_try state idx_image idx_chain
           (\<lambda>img state. on_Heisenberg img state what idx_image idx_chain (set_it img state)) =
         Unlock img (Log Warning API [Text (what @ Name (hamiltonian (images state img)))]
                       idx_image idx_chain (Lock img state))"
  using assms by (simp add: locked_try_Inr on_Heisenberg_other)

lemma supported_variant:
  assumes "from_indices state idx_image idx_chain = Inr img"
    and "hamiltonian (images state img) = Heisenberg ham"
  shows "locked_try state idx_image idx_chain
           (\<lambda>img state. on_Heisenberg img state what idx_image idx_chain (set_it img state)) =
         Unlock img (case set_it img (Lock img state) ham of
                       Inl e \<Rightarrow> spirit_handle_exception_api e idx_image idx_chain (Lock img state)
                     | Inr state' \<Rightarrow> state')"
  using assms by (simp add: locked_try_Inr on_Heisenberg_Heisenberg)

subsection \<open>The Hamiltonian a setter leaves behind on a Heisenberg image\<close>

lemma Set_Field_Heisenberg:
  assumes "from_indices state idx_image idx_chain = Inr img"
    and "hamiltonian (images state img) = Heisenberg ham"
  shows "from_indices (Hamiltonian_Set_Field state magnitude normal idx_image idx_chain)
           idx_image idx_chain = Inr img"
    and "hamiltonian (images (Hamiltonian_Set_Field state magnitude normal
           idx_image idx_chain) img) =
         Heisenberg (Update_Energy_Contributions
           (ham\<lparr>external_field_magnitude := magnitude * mu_B,
                external_field_normal := Vector3_normalize (normal 0, normal 1, normal 2)\<rparr>))"
  using assms by (simp_all add: Hamiltonian_Set_Field_def supported_variant Let_def)

lemma Set_Anisotropy_Heisenberg:
  assumes "from_indices state idx_image idx_chain = Inr img"
    and "hamiltonian (images state img) = Heisenberg ham"
    and "0 \<le> nos (images state img)"
    and "0 \<le> n_cell_atoms (geometry (images state img))"
  shows "\<exists>ham'. hamiltonian (images (Hamiltonian_Set_Anisotropy state magnitude normal
                   idx_image idx_chain) img) = Heisenberg ham' \<and>
           anisotropy_normals ham' =
             replicate (nat (nos (images state img)))
               (Vector3_normalize (normal 0, normal 1, normal 2))"
  using assms
  by (simp add: Hamiltonian_Set_Anisotropy_def supported_variant vector_n_def Let_def
      Update_Energy_Contributions_def split: prod.splits)

lemma Set_Exchange_Heisenberg:
  assumes "from_indices state idx_image idx_chain = Inr img"
    and "hamiltonian (images state img) = Heisenberg ham"
    and "0 \<le> n_shells"
  shows "from_indices (Hamiltonian_Set_Exchange state n_shells jij idx_image idx_chain)
           idx_image idx_chain = Inr img"
    and "hamiltonian (images (Hamiltonian_Set_Exchange state n_shells jij
           idx_image idx_chain) img) =
         Heisenberg (Update_Interactions
           (ham\<lparr>exchange_shell_magnitudes := map jij [0..<nat n_shells],
                exchange_pairs_in := [], exchange_magnitudes_in := []\<rparr>))"
  using assms
  by (simp_all add: Hamiltonian_Set_Exchange_def supported_variant vector_range_def Let_def)

lemma Set_DMI_Heisenberg:
  assumes "from_indices state idx_image idx_chain = Inr img"
    and "hamiltonian (images state img) = Heisenberg ham"
    and "0 \<le> n_shells"
  shows "hamiltonian (images (Hamiltonian_Set_DMI state n_shells dij chirality
           idx_image idx_chain) img) =
         Heisenberg (Update_Interactions
           (ham\<lparr>dmi_shell_magnitudes := map dij [0..<nat n_shells],
                dmi_shell_chirality := chirality,
                dmi_pairs_in := [], dmi_magnitudes_in := [], dmi_normals_in := []\<rparr>))"
  using assms
  by (simp add: Hamiltonian_Set_DMI_def supported_variant vector_range_def Let_def)

lemma Set_DDI_Heisenberg:
  assumes "from_indices state idx_image idx_chain = Inr img"
    and "hamiltonian (images state img) = Heisenberg ham"
  shows "from_indices (Hamiltonian_Set_DDI G D state radius idx_image idx_chain)
           idx_image idx_chain = Inr img"
    and "geometry (images (Hamiltonian_Set_DDI G D state radius idx_image idx_chain) img) =
           geometry (images state img)"
    and "hamiltonian (images (Hamiltonian_Set_DDI G D state radius idx_image idx_chain) img) =
         Heisenberg (Update_Energy_Contributions
           (ham\<lparr>ddi_pairs := G (geometry (images state img)) radius,
                ddi_magnitudes := fst (ddi_lists D (geometry (images state img))
                   (G (geometry (images state img)) radius)),
                ddi_normals := snd (ddi_lists D (geometry (images state img))
                   (G (geometry (images state img)) radius))\<rparr>))"
  using assms
  by (simp_all add: Hamiltonian_Set_DDI_def supported_variant Let_def split: prod.splits)

subsection \<open>Normalisation, buffers and the constant\<close>

lemma squaredNorm_pos: "v \<noteq> (0, 0, 0) \<Longrightarrow> 0 < squaredNorm v"
proof -
  obtain x y z where v: "v = (x, y, z)" by (cases v) auto
  assume "v \<noteq> (0, 0, 0)"
  with v have "x \<noteq> 0 \<or> y \<noteq> 0 \<or> z \<noteq> 0" by simp
  then have "0 < x * x + (y * y + z * z)"
    by (metis add_pos_nonneg add_nonneg_pos add_nonneg_nonneg zero_le_square
        mult_eq_0_iff less_le)
  with v show ?thesis by (simp add: squaredNorm_def add.assoc)
qed

lemma squaredNorm_div: "squaredNorm (Vector3_div v c) = squaredNorm v / (c * c)"
  by (cases v) (simp add: squaredNorm_def Vector3_div_def add_divide_distrib)

lemma Vector3_norm_normalize:
  assumes "v \<noteq> (0, 0, 0)"
  shows "Vector3_norm (Vector3_normalize v) = 1"
proof -
  have pos: "0 < squaredNorm v" using assms by (rule squaredNorm_pos)
  then have "sqrt (squaredNorm v) * sqrt (squaredNorm v) = squaredNorm v" by simp
  with pos show ?thesis
    by (simp add: Vector3_norm_def Vector3_normalize_def Let_def squaredNorm_div)
qed

lemma Vector3_normalize_scale:
  assumes "v \<noteq> (0, 0, 0)"
  shows "Vector3_normalize v = Vector3_scale (1 / Vector3_norm v) v"
    and "0 < 1 / Vector3_norm v"
proof -
  have pos: "0 < squaredNorm v" using assms by (rule squaredNorm_pos)
  then show "Vector3_normalize v = Vector3_scale (1 / Vector3_norm v) v"
    by (cases v) (simp add: Vector3_normalize_def Let_def Vector3_div_def Vector3_scale_def
        Vector3_norm_def)
  from pos show "0 < 1 / Vector3_norm v" by (simp add: Vector3_norm_def)
qed

lemma fold_write_upt:
  "n \<le> length xs \<Longrightarrow>
   fold (\<lambda>i out. out(i := xs ! i)) [0..<n] buf = (\<lambda>j. if j < n then xs ! j else buf j)"
proof (induction n)
  case 0
  then show ?case by simp
next
  case (Suc n)
  then show ?case by (auto simp: fun_eq_iff less_Suc_eq)
qed

lemma int_of_size_nat: "0 \<le> k \<Longrightarrow> k < 2 ^ 31 \<Longrightarrow> int_of_size (nat k) = k"
  by (simp add: int_of_size_def Let_def)

lemma mu_B_pos: "0 < mu_B"
  by (simp add: mu_B_def)

subsection \<open>The example state\<close>

lemma State_example_0:
  "from_indices State_example 0 0 = Inr 0"
  "hamiltonian (images State_example 0) = Heisenberg Heisenberg_example"
  "nos (images State_example 0) = 2"
  "n_cell_atoms (geometry (images State_example 0)) = 1"
  "geometry (images State_example 0) = \<lparr>n_cell_atoms = 1\<rparr>"
  "log_entries State_example = []"
  by (simp_all add: State_example_def from_indices_def)

lemma State_negative_nos_0:
  "from_indices State_negative_nos 0 0 = Inr 0"
  "hamiltonian (images State_negative_nos 0) = Heisenberg Heisenberg_example"
  "nos (images State_negative_nos 0) = - 1"
  "log_entries State_negative_nos = []"
  by (simp_all add: State_negative_nos_def State_example_def from_indices_def)

lemma State_example_1:
  "from_indices State_example 1 0 = Inr 2"
  "hamiltonian (images State_example 2) = Gaussian Gaussian_example"
  by (simp_all add: State_example_def from_indices_def)

lemma State_example_7:
  "from_indices State_example 7 0 = Inl (Exception ''from_indices: no such image'')"
  by (simp add: State_example_def from_indices_def)

lemma normal_example_values:
  "normal_example 0 = 0" "normal_example 1 = 0" "normal_example (Suc 0) = 0"
  "normal_example 2 = 2"
  by (simp_all add: normal_example_def)

section \<open>The claims\<close>

subsection \<open>Setters on a Hamiltonian that is not a Heisenberg one\<close>

text \<open>
  Claim C1. On an image that resolves and whose Hamiltonian has a \<^verbatim>\<open>Name()\<close> other than
  \<^verbatim>\<open>"Heisenberg"\<close>, each of the six Heisenberg-only setters leaves the Hamiltonian of
  every image as it was, appends exactly one entry of level \<open>Warning\<close> to the log (the
  setter's own text followed by the name of the variant, tagged with the two indices),
  and returns.
\<close>

theorem unsupported_variant_is_noop:
  assumes "from_indices state idx_image idx_chain = Inr img"
    and "Name (hamiltonian (images state img)) \<noteq> ''Heisenberg''"
  shows
   "\<forall>(state', what) \<in>
        {(Hamiltonian_Set_mu_s state mu_s_new idx_image idx_chain,
            ''mu_s cannot be set on ''),
         (Hamiltonian_Set_Field state magnitude normal idx_image idx_chain,
            ''External field cannot be set on ''),
         (Hamiltonian_Set_Anisotropy state magnitude normal idx_image idx_chain,
            ''Anisotropy cannot be set on ''),
         (Hamiltonian_Set_Exchange state n_shells jij idx_image idx_chain,
            ''Exchange cannot be set on ''),
         (Hamiltonian_Set_DMI state n_shells dij chirality idx_image idx_chain,
            ''DMI cannot be set on ''),
         (Hamiltonian_Set_DDI Get_Pairs_in_Radius DDI_from_Pair state radius idx_image idx_chain,
            ''DDI cannot be set on '')}.
      (\<forall>a. hamiltonian (images state' a) = hamiltonian (images state a)) \<and>
      log_entries state' = log_entries state @
        [\<lparr>entry_level = Warning, entry_sender = API,
          entry_message = [Text (what @ Name (hamiltonian (images state img)))],
          entry_idx_image = idx_image, entry_idx_chain = idx_chain\<rparr>]"
  using assms
  by (simp add: Hamiltonian_Set_mu_s_def Hamiltonian_Set_Field_def
      Hamiltonian_Set_Anisotropy_def Hamiltonian_Set_Exchange_def Hamiltonian_Set_DMI_def
      Hamiltonian_Set_DDI_def unsupported_variant)

theorem unsupported_variant_is_noop_witness:
  "from_indices State_example 1 0 = Inr 2 \<and>
   Name (hamiltonian (images State_example 2)) \<noteq> ''Heisenberg'' \<and>
   hamiltonian (images (Hamiltonian_Set_Field State_example 3 normal_example 1 0) 2) =
     Gaussian Gaussian_example \<and>
   log_entries (Hamiltonian_Set_Field State_example 3 normal_example 1 0) =
     [\<lparr>entry_level = Warning, entry_sender = API,
       entry_message = [Text ''External field cannot be set on Gaussian''],
       entry_idx_image = 1, entry_idx_chain = 0\<rparr>] \<and>
   log_entries (Hamiltonian_Set_DDI Get_Pairs_example DDI_example State_example 1 1 0) =
     [\<lparr>entry_level = Warning, entry_sender = API,
       entry_message = [Text ''DDI cannot be set on Gaussian''],
       entry_idx_image = 1, entry_idx_chain = 0\<rparr>]"
proof -
  have h1: "from_indices State_example 1 0 = Inr 2" by (rule State_example_1)
  have h2: "Name (hamiltonian (images State_example 2)) \<noteq> ''Heisenberg''"
    by (simp add: State_example_1)
  show ?thesis
    using h1 h2
      unsupported_variant_is_noop [OF h1 h2, where magnitude = 3 and normal = normal_example
        and radius = 1 and Get_Pairs_in_Radius = Get_Pairs_example
        and DDI_from_Pair = DDI_example]
    by (simp add: State_example_1 State_example_0)
qed

subsection \<open>Faults\<close>

text \<open>
  Claim C3. No operation of the interface lets an exception out. The faults of the model
  are the failed resolution of the index pair and the vector constructors called with a
  negative count.
  \<^item> When the index pair does not resolve, each of the twenty operations returns the
    state with one more log entry, of level \<open>Error\<close> and tagged with the two indices, and
    nothing else changed: \<^verbatim>\<open>Hamiltonian_Get_Name\<close> returns \<^verbatim>\<open>nullptr\<close>, the two pair counts
    are 0, and every output argument is as it was passed.
  \<^item> When the image resolves to a Heisenberg one and a constructor throws inside the
    inner \<^verbatim>\<open>try\<close> (a negative shell count in the exchange and DMI setters, a negative
    number of spins or of cell atoms in the anisotropy setter), the setter returns the
    state with the same kind of entry, the mutex released and no Hamiltonian touched.
\<close>

theorem faults_are_caught:
  "(from_indices state idx_image idx_chain = Inl (Exception what) \<longrightarrow>
      (let caught = state\<lparr>log_entries := log_entries state @
             [\<lparr>entry_level = Error, entry_sender = API, entry_message = [Text what],
               entry_idx_image = idx_image, entry_idx_chain = idx_chain\<rparr>]\<rparr>
       in Hamiltonian_Set_Boundary_Conditions state periodical idx_image idx_chain = caught \<and>
          Hamiltonian_Set_mu_s state mu_s_new idx_image idx_chain = caught \<and>
          Hamiltonian_Set_Field state magnitude normal idx_image idx_chain = caught \<and>
          Hamiltonian_Set_Anisotropy state magnitude normal idx_image idx_chain = caught \<and>
          Hamiltonian_Set_Exchange state n_shells jij idx_image idx_chain = caught \<and>
          Hamiltonian_Set_DMI state n_shells dij chirality idx_image idx_chain = caught \<and>
          Hamiltonian_Set_DDI Get_Pairs_in_Radius DDI_from_Pair state radius idx_image idx_chain
            = caught \<and>
          Hamiltonian_Get_Name state idx_image idx_chain = (caught, None) \<and>
          Hamiltonian_Get_Boundary_Conditions state periodical_out idx_image idx_chain =
            (caught, periodical_out) \<and>
          Hamiltonian_Get_mu_s state mu_s_out idx_image idx_chain = (caught, mu_s_out) \<and>
          Hamiltonian_Get_Field state magnitude_out normal_out idx_image idx_chain =
            (caught, magnitude_out, normal_out) \<and>
          Hamiltonian_Get_Anisotropy state magnitude_out normal_out idx_image idx_chain =
            (caught, magnitude_out, normal_out) \<and>
          Hamiltonian_Get_Exchange_Shells state n_shells_out jij_out idx_image idx_chain =
            (caught, n_shells_out, jij_out) \<and>
          Hamiltonian_Get_Exchange_N_Pairs state idx_image idx_chain = (caught, 0) \<and>
          Hamiltonian_Get_Exchange_Pairs state idx translations Jij idx_image idx_chain =
            (caught, idx, translations, Jij) \<and>
          Hamiltonian_Get_DMI_Shells state n_shells_out dij_out chirality_out
              idx_image idx_chain =
            (caught, n_shells_out, dij_out, chirality_out) \<and>
          Hamiltonian_Get_DMI_N_Pairs state idx_image idx_chain = (caught, 0) \<and>
          Hamiltonian_Get_DDI state radius_out idx_image idx_chain = (caught, radius_out))) \<and>
   (from_indices state idx_image idx_chain = Inr img \<and>
    hamiltonian (images state img) = Heisenberg ham \<longrightarrow>
      (let caught = state\<lparr>
             images := (images state)(img := (images state img)\<lparr>locked := False\<rparr>),
             log_entries := log_entries state @
               [\<lparr>entry_level = Error, entry_sender = API,
                 entry_message = [Text ''cannot create std::vector larger than max_size()''],
                 entry_idx_image = idx_image, entry_idx_chain = idx_chain\<rparr>]\<rparr>
       in (n_shells < 0 \<longrightarrow>
             Hamiltonian_Set_Exchange state n_shells jij idx_image idx_chain = caught \<and>
             Hamiltonian_Set_DMI state n_shells dij chirality idx_image idx_chain = caught) \<and>
          (n_cell_atoms (geometry (images state img)) < 0 \<or> nos (images state img) < 0 \<longrightarrow>
             Hamiltonian_Set_Anisotropy state magnitude normal idx_image idx_chain = caught)))"
proof (intro conjI impI)
  assume r: "from_indices state idx_image idx_chain = Inl (Exception what)"
  have h: "spirit_handle_exception_api (Exception what) idx_image idx_chain state =
      state\<lparr>log_entries := log_entries state @
             [\<lparr>entry_level = Error, entry_sender = API, entry_message = [Text what],
               entry_idx_image = idx_image, entry_idx_chain = idx_chain\<rparr>]\<rparr>"
    by (simp add: spirit_handle_exception_api_def Log_def)
  show "let caught = state\<lparr>log_entries := log_entries state @
             [\<lparr>entry_level = Error, entry_sender = API, entry_message = [Text what],
               entry_idx_image = idx_image, entry_idx_chain = idx_chain\<rparr>]\<rparr>
       in Hamiltonian_Set_Boundary_Conditions state periodical idx_image idx_chain = caught \<and>
          Hamiltonian_Set_mu_s state mu_s_new idx_image idx_chain = caught \<and>
          Hamiltonian_Set_Field state magnitude normal idx_image idx_chain = caught \<and>
          Hamiltonian_Set_Anisotropy state magnitude normal idx_image idx_chain = caught \<and>
          Hamiltonian_Set_Exchange state n_shells jij idx_image idx_chain = caught \<and>
          Hamiltonian_Set_DMI state n_shells dij chirality idx_image idx_chain = caught \<and>
          Hamiltonian_Set_DDI Get_Pairs_in_Radius DDI_from_Pair state radius idx_image idx_chain
            = caught \<and>
          Hamiltonian_Get_Name state idx_image idx_chain = (caught, None) \<and>
          Hamiltonian_Get_Boundary_Conditions state periodical_out idx_image idx_chain =
            (caught, periodical_out) \<and>
          Hamiltonian_Get_mu_s state mu_s_out idx_image idx_chain = (caught, mu_s_out) \<and>
          Hamiltonian_Get_Field state magnitude_out normal_out idx_image idx_chain =
            (caught, magnitude_out, normal_out) \<and>
          Hamiltonian_Get_Anisotropy state magnitude_out normal_out idx_image idx_chain =
            (caught, magnitude_out, normal_out) \<and>
          Hamiltonian_Get_Exchange_Shells state n_shells_out jij_out idx_image idx_chain =
            (caught, n_shells_out, jij_out) \<and>
          Hamiltonian_Get_Exchange_N_Pairs state idx_image idx_chain = (caught, 0) \<and>
          Hamiltonian_Get_Exchange_Pairs state idx translations Jij idx_image idx_chain =
            (caught, idx, translations, Jij) \<and>
          Hamiltonian_Get_DMI_Shells state n_shells_out dij_out chirality_out
              idx_image idx_chain =
            (caught, n_shells_out, dij_out, chirality_out) \<and>
          Hamiltonian_Get_DMI_N_Pairs state idx_image idx_chain = (caught, 0) \<and>
          Hamiltonian_Get_DDI state radius_out idx_image idx_chain = (caught, radius_out)"
    unfolding Let_def h [symmetric]
    using r
    by (simp add: Hamiltonian_Set_Boundary_Conditions_def Hamiltonian_Set_mu_s_def
        Hamiltonian_Set_Field_def Hamiltonian_Set_Anisotropy_def Hamiltonian_Set_Exchange_def
        Hamiltonian_Set_DMI_def Hamiltonian_Set_DDI_def locked_try_Inl
        Hamiltonian_Get_Name_def Hamiltonian_Get_Boundary_Conditions_def
        Hamiltonian_Get_mu_s_def Hamiltonian_Get_Field_def Hamiltonian_Get_Anisotropy_def
        Hamiltonian_Get_Exchange_Shells_def Hamiltonian_Get_Exchange_N_Pairs_def
        Hamiltonian_Get_Exchange_Pairs_def Hamiltonian_Get_DMI_Shells_def
        Hamiltonian_Get_DMI_N_Pairs_def Hamiltonian_Get_DDI_def)
next
  assume a: "from_indices state idx_image idx_chain = Inr img \<and>
    hamiltonian (images state img) = Heisenberg ham"
  let ?e = "Exception ''cannot create std::vector larger than max_size()''"
  have h: "Unlock img (spirit_handle_exception_api ?e idx_image idx_chain (Lock img state)) =
      state\<lparr>images := (images state)(img := (images state img)\<lparr>locked := False\<rparr>),
             log_entries := log_entries state @
               [\<lparr>entry_level = Error, entry_sender = API,
                 entry_message = [Text ''cannot create std::vector larger than max_size()''],
                 entry_idx_image = idx_image, entry_idx_chain = idx_chain\<rparr>]\<rparr>"
    by (simp add: spirit_handle_exception_api_def Log_def Lock_def Unlock_def)
  show "let caught = state\<lparr>
             images := (images state)(img := (images state img)\<lparr>locked := False\<rparr>),
             log_entries := log_entries state @
               [\<lparr>entry_level = Error, entry_sender = API,
                 entry_message = [Text ''cannot create std::vector larger than max_size()''],
                 entry_idx_image = idx_image, entry_idx_chain = idx_chain\<rparr>]\<rparr>
       in (n_shells < 0 \<longrightarrow>
             Hamiltonian_Set_Exchange state n_shells jij idx_image idx_chain = caught \<and>
             Hamiltonian_Set_DMI state n_shells dij chirality idx_image idx_chain = caught) \<and>
          (n_cell_atoms (geometry (images state img)) < 0 \<or> nos (images state img) < 0 \<longrightarrow>
             Hamiltonian_Set_Anisotropy state magnitude normal idx_image idx_chain = caught)"
    unfolding Let_def h [symmetric]
    using a
    by (auto simp add: Hamiltonian_Set_Exchange_def Hamiltonian_Set_DMI_def
        Hamiltonian_Set_Anisotropy_def vector_range_def vector_n_def Let_def
        supported_variant split: prod.splits)
qed

theorem faults_are_caught_witness:
  "from_indices State_example 7 0 = Inl (Exception ''from_indices: no such image'') \<and>
   Hamiltonian_Get_Name State_example 7 0 =
     (State_example\<lparr>log_entries :=
        [\<lparr>entry_level = Error, entry_sender = API,
          entry_message = [Text ''from_indices: no such image''],
          entry_idx_image = 7, entry_idx_chain = 0\<rparr>]\<rparr>, None) \<and>
   snd (Hamiltonian_Get_DMI_N_Pairs State_example 7 0) = 0 \<and>
   Hamiltonian_Set_Field State_example 3 normal_example 7 0 =
     State_example\<lparr>log_entries :=
        [\<lparr>entry_level = Error, entry_sender = API,
          entry_message = [Text ''from_indices: no such image''],
          entry_idx_image = 7, entry_idx_chain = 0\<rparr>]\<rparr> \<and>
   from_indices State_example 0 0 = Inr 0 \<and>
   hamiltonian (images State_example 0) = Heisenberg Heisenberg_example \<and>
   Hamiltonian_Set_Exchange State_example (- 1) normal_example 0 0 =
     State_example\<lparr>
       images := (images State_example)(0 := (images State_example 0)\<lparr>locked := False\<rparr>),
       log_entries :=
        [\<lparr>entry_level = Error, entry_sender = API,
          entry_message = [Text ''cannot create std::vector larger than max_size()''],
          entry_idx_image = 0, entry_idx_chain = 0\<rparr>]\<rparr> \<and>
   from_indices State_negative_nos 0 0 = Inr 0 \<and>
   hamiltonian (images State_negative_nos 0) = Heisenberg Heisenberg_example \<and>
   nos (images State_negative_nos 0) < 0 \<and>
   hamiltonian (images (Hamiltonian_Set_Anisotropy State_negative_nos 3 normal_example 0 0) 0) =
     Heisenberg Heisenberg_example \<and>
   log_entries (Hamiltonian_Set_Anisotropy State_negative_nos 3 normal_example 0 0) =
     [\<lparr>entry_level = Error, entry_sender = API,
       entry_message = [Text ''cannot create std::vector larger than max_size()''],
       entry_idx_image = 0, entry_idx_chain = 0\<rparr>]"
proof -
  have r: "from_indices State_example 7 0 = Inl (Exception ''from_indices: no such image'')"
    by (rule State_example_7)
  have i: "from_indices State_example 0 0 = Inr 0"
    and v: "hamiltonian (images State_example 0) = Heisenberg Heisenberg_example"
    by (rule State_example_0)+
  show ?thesis
    using r i v
      faults_are_caught [where state = State_example and idx_image = 7 and idx_chain = 0
        and what = "''from_indices: no such image''" and magnitude = 3
        and normal = normal_example]
      faults_are_caught [where state = State_example and idx_image = 0 and idx_chain = 0
        and img = 0 and ham = Heisenberg_example and n_shells = "- 1"
        and jij = normal_example]
      faults_are_caught [where state = State_negative_nos and idx_image = 0
        and idx_chain = 0 and img = 0 and ham = Heisenberg_example and magnitude = 3
        and normal = normal_example]
    by (simp add: Let_def State_example_0 State_negative_nos_0)
qed

subsection \<open>Directions are normalised\<close>

text \<open>
  Claim C4. On a Heisenberg image and for an input direction other than the zero vector,
  the direction that \<^verbatim>\<open>Hamiltonian_Set_Field\<close> stores in \<^verbatim>\<open>external_field_normal\<close> has
  norm 1 and is a positive multiple of the input; after \<^verbatim>\<open>Hamiltonian_Set_Anisotropy\<close>
  the same holds of every entry of \<^verbatim>\<open>anisotropy_normals\<close>, of which there are as many as
  spins. The numbers of spins and of cell atoms of the image are not negative, as counts
  are; the arithmetic is the exact one of the reals.
\<close>

theorem stored_direction_is_normalized:
  assumes "from_indices state idx_image idx_chain = Inr img"
    and "hamiltonian (images state img) = Heisenberg ham"
    and "(normal 0, normal 1, normal 2) \<noteq> (0, 0, 0)"
    and "0 \<le> nos (images state img)"
    and "0 \<le> n_cell_atoms (geometry (images state img))"
  shows "(\<exists>ham'. hamiltonian (images (Hamiltonian_Set_Field state magnitude normal
                     idx_image idx_chain) img) = Heisenberg ham' \<and>
            Vector3_norm (external_field_normal ham') = 1 \<and>
            (\<exists>k>0. external_field_normal ham' =
                      Vector3_scale k (normal 0, normal 1, normal 2))) \<and>
         (\<exists>ham'. hamiltonian (images (Hamiltonian_Set_Anisotropy state magnitude normal
                     idx_image idx_chain) img) = Heisenberg ham' \<and>
            length (anisotropy_normals ham') = nat (nos (images state img)) \<and>
            (\<forall>n \<in> set (anisotropy_normals ham').
               Vector3_norm n = 1 \<and>
               (\<exists>k>0. n = Vector3_scale k (normal 0, normal 1, normal 2))))"
proof (intro conjI)
  let ?v = "(normal 0, normal 1, normal 2)"
  have unit: "Vector3_norm (Vector3_normalize ?v) = 1"
    using assms(3) by (rule Vector3_norm_normalize)
  have mult: "\<exists>k>0. Vector3_normalize ?v = Vector3_scale k ?v"
    using Vector3_normalize_scale [OF assms(3)] by blast
  show "\<exists>ham'. hamiltonian (images (Hamiltonian_Set_Field state magnitude normal
                     idx_image idx_chain) img) = Heisenberg ham' \<and>
            Vector3_norm (external_field_normal ham') = 1 \<and>
            (\<exists>k>0. external_field_normal ham' = Vector3_scale k ?v)"
    using Set_Field_Heisenberg(2) [OF assms(1,2)] unit mult
    by (simp add: Update_Energy_Contributions_def)
  obtain ham' where
    "hamiltonian (images (Hamiltonian_Set_Anisotropy state magnitude normal
        idx_image idx_chain) img) = Heisenberg ham'"
    "anisotropy_normals ham' = replicate (nat (nos (images state img))) (Vector3_normalize ?v)"
    using Set_Anisotropy_Heisenberg [OF assms(1,2,4,5)] by blast
  with unit mult
  show "\<exists>ham'. hamiltonian (images (Hamiltonian_Set_Anisotropy state magnitude normal
                     idx_image idx_chain) img) = Heisenberg ham' \<and>
            length (anisotropy_normals ham') = nat (nos (images state img)) \<and>
            (\<forall>n \<in> set (anisotropy_normals ham').
               Vector3_norm n = 1 \<and> (\<exists>k>0. n = Vector3_scale k ?v))"
    by auto
qed

theorem stored_direction_is_normalized_witness:
  "from_indices State_example 0 0 = Inr 0 \<and>
   hamiltonian (images State_example 0) = Heisenberg Heisenberg_example \<and>
   (normal_example 0, normal_example 1, normal_example 2) \<noteq> (0, 0, 0) \<and>
   0 \<le> nos (images State_example 0) \<and>
   0 \<le> n_cell_atoms (geometry (images State_example 0)) \<and>
   (\<exists>ham'. hamiltonian (images (Hamiltonian_Set_Field State_example 3 normal_example 0 0) 0) =
             Heisenberg ham' \<and>
           Vector3_norm (external_field_normal ham') = 1 \<and>
           (\<exists>k>0. external_field_normal ham' = Vector3_scale k (0, 0, 2))) \<and>
   (\<exists>ham'. hamiltonian (images (Hamiltonian_Set_Anisotropy State_example 3 normal_example 0 0) 0) =
             Heisenberg ham' \<and>
           length (anisotropy_normals ham') = 2 \<and>
           list_all (\<lambda>n. Vector3_norm n = 1) (anisotropy_normals ham'))"
proof -
  have h1: "from_indices State_example 0 0 = Inr 0"
    and h2: "hamiltonian (images State_example 0) = Heisenberg Heisenberg_example"
    by (rule State_example_0)+
  have h3: "(normal_example 0, normal_example 1, normal_example 2) \<noteq> (0, 0, 0)"
    by (simp add: normal_example_values)
  have h4: "0 \<le> nos (images State_example 0)"
    and h5: "0 \<le> n_cell_atoms (geometry (images State_example 0))"
    by (simp_all add: State_example_0)
  show ?thesis
    using h1 h2 h3 h4 h5 stored_direction_is_normalized [OF h1 h2 h3 h4 h5, where magnitude = 3]
    by (auto simp add: State_example_0 normal_example_values list_all_iff)
qed

subsection \<open>Exchange and DMI shells\<close>

text \<open>
  Claim C5. On a Heisenberg image, for a shell count \<open>k \<ge> 0\<close> (a C \<^verbatim>\<open>int\<close>, so below
  \<open>2^31\<close>) and the \<open>k\<close> magnitudes stored at \<open>jij\<close>, \<^verbatim>\<open>Hamiltonian_Set_Exchange\<close> followed
  by \<^verbatim>\<open>Hamiltonian_Get_Exchange_Shells\<close> with the same indices writes \<open>k\<close> to
  \<^verbatim>\<open>*n_shells\<close> and the same \<open>k\<close> magnitudes to the output array.
\<close>

theorem exchange_shells_round_trip:
  assumes "from_indices state idx_image idx_chain = Inr img"
    and "hamiltonian (images state img) = Heisenberg ham"
    and "0 \<le> k" and "k < 2 ^ 31"
  shows "case Hamiltonian_Get_Exchange_Shells
                (Hamiltonian_Set_Exchange state k jij idx_image idx_chain)
                n_shells out idx_image idx_chain of
           (state', n_shells', out') \<Rightarrow>
              n_shells' = k \<and> map out' [0..<nat k] = map jij [0..<nat k]"
  using Set_Exchange_Heisenberg [OF assms(1,2,3)] assms(3,4)
  by (simp add: Hamiltonian_Get_Exchange_Shells_def Update_Interactions_def
      Update_Energy_Contributions_def fold_write_upt int_of_size_nat)

theorem exchange_shells_round_trip_witness:
  "from_indices State_example 0 0 = Inr 0 \<and>
   hamiltonian (images State_example 0) = Heisenberg Heisenberg_example \<and>
   (0 :: int) \<le> 2 \<and> (2 :: int) < 2 ^ 31 \<and>
   (case Hamiltonian_Get_Exchange_Shells
           (Hamiltonian_Set_Exchange State_example 2 (\<lambda>i. [5, 7] ! i) 0 0)
           0 (\<lambda>i. 0) 0 0 of
      (state', n_shells', out') \<Rightarrow> n_shells' = 2 \<and> map out' [0..<2] = [5, 7])"
proof -
  have h1: "from_indices State_example 0 0 = Inr 0"
    and h2: "hamiltonian (images State_example 0) = Heisenberg Heisenberg_example"
    by (rule State_example_0)+
  have h3: "(0 :: int) \<le> 2" and h4: "(2 :: int) < 2 ^ 31" by simp_all
  have two: "[0..<2] = [0, Suc 0]" by (simp add: upt_rec)
  show ?thesis
    using h1 h2
      exchange_shells_round_trip [OF h1 h2 h3 h4, where jij = "\<lambda>i. [5, 7] ! i"
        and n_shells = 0 and out = "\<lambda>i. 0"]
    by (simp add: two split: prod.splits)
qed

text \<open>
  Claim C6. On a Heisenberg image and for a shell count that is not negative,
  \<^verbatim>\<open>Hamiltonian_Set_Exchange\<close> leaves \<^verbatim>\<open>exchange_pairs_in\<close> and \<^verbatim>\<open>exchange_magnitudes_in\<close>
  empty and the shell magnitudes equal to the input, and \<^verbatim>\<open>Hamiltonian_Set_DMI\<close> leaves
  \<^verbatim>\<open>dmi_pairs_in\<close>, \<^verbatim>\<open>dmi_magnitudes_in\<close> and \<^verbatim>\<open>dmi_normals_in\<close> empty and the shell
  magnitudes and the chirality equal to the input, whatever these fields held before.
\<close>

theorem explicit_pairs_are_cleared:
  assumes "from_indices state idx_image idx_chain = Inr img"
    and "hamiltonian (images state img) = Heisenberg ham"
    and "0 \<le> n_shells"
  shows "(\<exists>ham'. hamiltonian (images (Hamiltonian_Set_Exchange state n_shells jij
                     idx_image idx_chain) img) = Heisenberg ham' \<and>
            exchange_pairs_in ham' = [] \<and> exchange_magnitudes_in ham' = [] \<and>
            exchange_shell_magnitudes ham' = map jij [0..<nat n_shells]) \<and>
         (\<exists>ham'. hamiltonian (images (Hamiltonian_Set_DMI state n_shells dij chirality
                     idx_image idx_chain) img) = Heisenberg ham' \<and>
            dmi_pairs_in ham' = [] \<and> dmi_magnitudes_in ham' = [] \<and>
            dmi_normals_in ham' = [] \<and>
            dmi_shell_magnitudes ham' = map dij [0..<nat n_shells] \<and>
            dmi_shell_chirality ham' = chirality)"
  using Set_Exchange_Heisenberg(2) [OF assms] Set_DMI_Heisenberg [OF assms]
  by (simp add: Update_Interactions_def Update_Energy_Contributions_def)

theorem explicit_pairs_are_cleared_witness:
  "from_indices State_example 0 0 = Inr 0 \<and>
   hamiltonian (images State_example 0) = Heisenberg Heisenberg_example \<and>
   (0 :: int) \<le> 2 \<and>
   exchange_pairs_in Heisenberg_example = [Pair_example] \<and>
   dmi_normals_in Heisenberg_example = [(0, 0, 1)] \<and>
   (\<exists>ham'. hamiltonian (images (Hamiltonian_Set_Exchange State_example 2
                              (\<lambda>i. [5, 7] ! i) 0 0) 0) = Heisenberg ham' \<and>
           exchange_pairs_in ham' = [] \<and> exchange_magnitudes_in ham' = [] \<and>
           exchange_shell_magnitudes ham' = [5, 7]) \<and>
   (\<exists>ham'. hamiltonian (images (Hamiltonian_Set_DMI State_example 2
                              (\<lambda>i. [6, 8] ! i) (- 1) 0 0) 0) = Heisenberg ham' \<and>
           dmi_pairs_in ham' = [] \<and> dmi_magnitudes_in ham' = [] \<and>
           dmi_normals_in ham' = [] \<and>
           dmi_shell_magnitudes ham' = [6, 8] \<and> dmi_shell_chirality ham' = - 1)"
proof -
  have h1: "from_indices State_example 0 0 = Inr 0"
    and h2: "hamiltonian (images State_example 0) = Heisenberg Heisenberg_example"
    by (rule State_example_0)+
  have h3: "(0 :: int) \<le> 2" by simp
  have two: "[0..<2] = [0, Suc 0]" by (simp add: upt_rec)
  show ?thesis
    using h1 h2
      explicit_pairs_are_cleared [OF h1 h2 h3, where jij = "\<lambda>i. [5, 7] ! i"
        and dij = "\<lambda>i. [6, 8] ! i" and chirality = "- 1"]
    by (simp add: two Heisenberg_example_def)
qed

subsection \<open>The external field\<close>

text \<open>
  Claim C7, as amended. On a Heisenberg image, \<^verbatim>\<open>Hamiltonian_Set_Field\<close> with magnitude
  \<open>M\<close> stores \<open>M * mu_B\<close> in \<^verbatim>\<open>external_field_magnitude\<close>, for every \<open>M\<close>. A following
  \<^verbatim>\<open>Hamiltonian_Get_Field\<close> writes \<open>M\<close> to \<^verbatim>\<open>*magnitude\<close> when \<open>M \<ge> 0\<close>, and 0 when
  \<open>M < 0\<close>. (The arithmetic is the exact one of the reals.)
\<close>

theorem field_magnitude_round_trip:
  assumes "from_indices state idx_image idx_chain = Inr img"
    and "hamiltonian (images state img) = Heisenberg ham"
  shows "(\<exists>ham'. hamiltonian (images (Hamiltonian_Set_Field state M normal
                     idx_image idx_chain) img) = Heisenberg ham' \<and>
            external_field_magnitude ham' = M * mu_B) \<and>
         fst (snd (Hamiltonian_Get_Field
                     (Hamiltonian_Set_Field state M normal idx_image idx_chain)
                     magnitude_out normal_out idx_image idx_chain)) =
           (if 0 \<le> M then M else 0)"
proof -
  note after = Set_Field_Heisenberg [OF assms, of M normal]
  consider "M < 0" | "M = 0" | "0 < M" by linarith
  then show ?thesis
  proof cases
    case 1
    then have "M * mu_B < 0" using mu_B_pos by (rule mult_neg_pos)
    then have "\<not> 0 < M * mu_B" by simp
    with 1 after show ?thesis
      by (simp add: Hamiltonian_Get_Field_def Update_Energy_Contributions_def)
  next
    case 2
    with after show ?thesis
      by (simp add: Hamiltonian_Get_Field_def Update_Energy_Contributions_def)
  next
    case 3
    then have "0 < M * mu_B" using mu_B_pos by simp
    with 3 after mu_B_pos show ?thesis
      by (simp add: Hamiltonian_Get_Field_def Update_Energy_Contributions_def
          split: prod.splits)
  qed
qed

theorem field_magnitude_round_trip_witness:
  "from_indices State_example 0 0 = Inr 0 \<and>
   hamiltonian (images State_example 0) = Heisenberg Heisenberg_example \<and>
   fst (snd (Hamiltonian_Get_Field
               (Hamiltonian_Set_Field State_example 3 normal_example 0 0)
               0 (\<lambda>i. 0) 0 0)) = 3 \<and>
   fst (snd (Hamiltonian_Get_Field
               (Hamiltonian_Set_Field State_example (- 3) normal_example 0 0)
               0 (\<lambda>i. 0) 0 0)) = 0"
proof -
  have h1: "from_indices State_example 0 0 = Inr 0"
    and h2: "hamiltonian (images State_example 0) = Heisenberg Heisenberg_example"
    by (rule State_example_0)+
  show ?thesis
    using h1 h2
      field_magnitude_round_trip [OF h1 h2, where M = 3 and normal = normal_example
        and magnitude_out = 0 and normal_out = "\<lambda>i. 0"]
      field_magnitude_round_trip [OF h1 h2, where M = "- 3" and normal = normal_example
        and magnitude_out = 0 and normal_out = "\<lambda>i. 0"]
    by simp
qed

text \<open>
  Claim C7, as stated, fails for a negative magnitude: after \<^verbatim>\<open>Hamiltonian_Set_Field\<close>
  with magnitude \<open>-1\<close> the stored value \<open>- mu_B\<close> is not positive, and
  \<^verbatim>\<open>Hamiltonian_Get_Field\<close> writes 0.
\<close>

theorem field_magnitude_round_trip_counterexample:
  "fst (snd (Hamiltonian_Get_Field
               (Hamiltonian_Set_Field State_example (- 1) normal_example 0 0)
               7 (\<lambda>i. 0) 0 0)) = 0 \<and>
   fst (snd (Hamiltonian_Get_Field
               (Hamiltonian_Set_Field State_example (- 1) normal_example 0 0)
               7 (\<lambda>i. 0) 0 0)) \<noteq> - 1"
  using Set_Field_Heisenberg [OF State_example_0(1,2), of "- 1" normal_example] mu_B_pos
  by (simp add: Hamiltonian_Get_Field_def Update_Energy_Contributions_def)

text \<open>
  Claim C10. On a Heisenberg image whose stored \<^verbatim>\<open>external_field_magnitude\<close> is not
  positive, \<^verbatim>\<open>Hamiltonian_Get_Field\<close> writes the magnitude 0 and the direction
  \<open>(0, 0, 1)\<close>, whatever direction is stored. That is the case after
  \<^verbatim>\<open>Hamiltonian_Set_Field\<close> with magnitude 0: the direction it was given is not
  returned.
\<close>

theorem zero_field_reads_sentinel:
  assumes "from_indices state idx_image idx_chain = Inr img"
    and "hamiltonian (images state img) = Heisenberg ham"
  shows "(external_field_magnitude ham \<le> 0 \<longrightarrow>
            Hamiltonian_Get_Field state magnitude_out normal_out idx_image idx_chain =
              (state, 0, normal_out(0 := 0, 1 := 0, 2 := 1))) \<and>
         snd (Hamiltonian_Get_Field
                (Hamiltonian_Set_Field state 0 normal idx_image idx_chain)
                magnitude_out normal_out idx_image idx_chain) =
           (0, normal_out(0 := 0, 1 := 0, 2 := 1))"
  using assms Set_Field_Heisenberg [OF assms, of 0 normal]
  by (simp add: Hamiltonian_Get_Field_def Update_Energy_Contributions_def)

theorem zero_field_reads_sentinel_witness:
  "from_indices State_example 0 0 = Inr 0 \<and>
   hamiltonian (images State_example 0) = Heisenberg Heisenberg_example \<and>
   external_field_magnitude Heisenberg_example \<le> 0 \<and>
   external_field_normal Heisenberg_example = (1, 0, 0) \<and>
   Hamiltonian_Get_Field State_example 7 (\<lambda>i. 5) 0 0 =
     (State_example, 0, (\<lambda>i. 5)(0 := 0, 1 := 0, 2 := 1)) \<and>
   snd (Hamiltonian_Get_Field
          (Hamiltonian_Set_Field State_example 0 (\<lambda>i. if i = 0 then 1 else 0) 0 0)
          7 (\<lambda>i. 5) 0 0) =
     (0, (\<lambda>i. 5)(0 := 0, 1 := 0, 2 := 1))"
proof -
  have h1: "from_indices State_example 0 0 = Inr 0"
    and h2: "hamiltonian (images State_example 0) = Heisenberg Heisenberg_example"
    by (rule State_example_0)+
  have h3: "external_field_magnitude Heisenberg_example \<le> 0"
    and h4: "external_field_normal Heisenberg_example = (1, 0, 0)"
    by (simp_all add: Heisenberg_example_def)
  show ?thesis
    using h1 h2 h3 h4
      zero_field_reads_sentinel [OF h1 h2, where magnitude_out = 7 and normal_out = "\<lambda>i. 5"
        and normal = "\<lambda>i. if i = 0 then 1 else 0"]
    by simp
qed

subsection \<open>The dipolar pairs\<close>

text \<open>
  Claim C8. On a Heisenberg image, calling \<^verbatim>\<open>Hamiltonian_Set_DDI\<close> twice in a row with
  the same radius leaves the same \<^verbatim>\<open>ddi_pairs\<close>, \<^verbatim>\<open>ddi_magnitudes\<close> and \<^verbatim>\<open>ddi_normals\<close>
  after the second call as after the first, for any pair generator and any coupling
  that are functions of their arguments: the setter builds the three lists from the
  geometry and the radius alone, and it changes neither.
\<close>

theorem ddi_regeneration_is_deterministic:
  assumes "from_indices state idx_image idx_chain = Inr img"
    and "hamiltonian (images state img) = Heisenberg ham"
  shows "\<exists>ham1 ham2.
           hamiltonian (images (Hamiltonian_Set_DDI G D state radius idx_image idx_chain) img) =
             Heisenberg ham1 \<and>
           hamiltonian (images (Hamiltonian_Set_DDI G D
               (Hamiltonian_Set_DDI G D state radius idx_image idx_chain)
               radius idx_image idx_chain) img) = Heisenberg ham2 \<and>
           ddi_pairs ham2 = ddi_pairs ham1 \<and>
           ddi_magnitudes ham2 = ddi_magnitudes ham1 \<and>
           ddi_normals ham2 = ddi_normals ham1 \<and>
           ddi_pairs ham1 = G (geometry (images state img)) radius \<and>
           (ddi_magnitudes ham1, ddi_normals ham1) =
             ddi_lists D (geometry (images state img)) (ddi_pairs ham1)"
proof -
  note first = Set_DDI_Heisenberg [OF assms, of G D radius]
  note second = Set_DDI_Heisenberg [OF first(1) first(3), of G D radius]
  show ?thesis
    using first(3) second(3) first(2)
    by (simp add: Update_Energy_Contributions_def)
qed

theorem ddi_regeneration_is_deterministic_witness:
  "from_indices State_example 0 0 = Inr 0 \<and>
   hamiltonian (images State_example 0) = Heisenberg Heisenberg_example \<and>
   (\<exists>ham1 ham2.
      hamiltonian (images (Hamiltonian_Set_DDI Get_Pairs_example DDI_example
          State_example 1 0 0) 0) = Heisenberg ham1 \<and>
      hamiltonian (images (Hamiltonian_Set_DDI Get_Pairs_example DDI_example
          (Hamiltonian_Set_DDI Get_Pairs_example DDI_example State_example 1 0 0)
          1 0 0) 0) = Heisenberg ham2 \<and>
      ddi_pairs ham2 = [Pair_example] \<and> ddi_pairs ham1 = [Pair_example] \<and>
      ddi_magnitudes ham2 = [1 / 2] \<and> ddi_magnitudes ham1 = [1 / 2] \<and>
      ddi_normals ham2 = [(0, 0, 1)] \<and> ddi_normals ham1 = [(0, 0, 1)])"
proof -
  have h1: "from_indices State_example 0 0 = Inr 0"
    and h2: "hamiltonian (images State_example 0) = Heisenberg Heisenberg_example"
    by (rule State_example_0)+
  have lists: "ddi_lists DDI_example g [Pair_example] = ([1 / 2], [(0, 0, 1)])" for g
    by (simp add: ddi_lists_def DDI_example_def)
  obtain ham1 ham2 where
    "hamiltonian (images (Hamiltonian_Set_DDI Get_Pairs_example DDI_example
        State_example 1 0 0) 0) = Heisenberg ham1"
    "hamiltonian (images (Hamiltonian_Set_DDI Get_Pairs_example DDI_example
        (Hamiltonian_Set_DDI Get_Pairs_example DDI_example State_example 1 0 0)
        1 0 0) 0) = Heisenberg ham2"
    "ddi_pairs ham2 = ddi_pairs ham1" "ddi_magnitudes ham2 = ddi_magnitudes ham1"
    "ddi_normals ham2 = ddi_normals ham1"
    "ddi_pairs ham1 = Get_Pairs_example (geometry (images State_example 0)) 1"
    "(ddi_magnitudes ham1, ddi_normals ham1) =
       ddi_lists DDI_example (geometry (images State_example 0)) (ddi_pairs ham1)"
    using ddi_regeneration_is_deterministic [OF h1 h2, of Get_Pairs_example DDI_example 1]
    by blast
  then show ?thesis
    using h1 h2 by (simp add: Get_Pairs_example_def lists)
qed

subsection \<open>The pair getters\<close>

text \<open>
  Claim C9. Whenever the image resolves, \<^verbatim>\<open>Hamiltonian_Get_Exchange_N_Pairs\<close> and
  \<^verbatim>\<open>Hamiltonian_Get_DMI_N_Pairs\<close> return 0 and append one \<open>Warning\<close> entry that says
  "not yet implemented", whatever the variant of the Hamiltonian and whatever its pair
  lists hold; \<^verbatim>\<open>Hamiltonian_Get_Exchange_Pairs\<close> appends the same entry and leaves its
  three output arrays as they were passed.
\<close>

theorem pair_getters_are_stubs:
  assumes "from_indices state idx_image idx_chain = Inr img"
  shows "Hamiltonian_Get_Exchange_N_Pairs state idx_image idx_chain =
           (Log Warning API
              [Text (Name (hamiltonian (images state img)) @
                     '' Hamiltonian: fetching exchange pairs is not yet implemented...'')]
              idx_image idx_chain state, 0) \<and>
         Hamiltonian_Get_DMI_N_Pairs state idx_image idx_chain =
           (Log Warning API
              [Text (Name (hamiltonian (images state img)) @
                     '' Hamiltonian: fetching DMI pairs is not yet implemented...'')]
              idx_image idx_chain state, 0) \<and>
         Hamiltonian_Get_Exchange_Pairs state idx translations Jij idx_image idx_chain =
           (Log Warning API
              [Text (Name (hamiltonian (images state img)) @
                     '' Hamiltonian: fetching exchange pairs is not yet implemented...'')]
              idx_image idx_chain state, idx, translations, Jij)"
  using assms
  by (simp add: Hamiltonian_Get_Exchange_N_Pairs_def Hamiltonian_Get_DMI_N_Pairs_def
      Hamiltonian_Get_Exchange_Pairs_def)

theorem pair_getters_are_stubs_witness:
  "from_indices State_example 0 0 = Inr 0 \<and>
   exchange_pairs_in Heisenberg_example = [Pair_example] \<and>
   snd (Hamiltonian_Get_Exchange_N_Pairs State_example 0 0) = 0 \<and>
   log_entries (fst (Hamiltonian_Get_Exchange_N_Pairs State_example 0 0)) =
     [\<lparr>entry_level = Warning, entry_sender = API,
       entry_message =
         [Text ''Heisenberg Hamiltonian: fetching exchange pairs is not yet implemented...''],
       entry_idx_image = 0, entry_idx_chain = 0\<rparr>] \<and>
   snd (Hamiltonian_Get_DMI_N_Pairs State_example 0 0) = 0"
proof -
  have h1: "from_indices State_example 0 0 = Inr 0" by (rule State_example_0)
  show ?thesis
    using h1 pair_getters_are_stubs [OF h1]
    by (simp add: State_example_0 Heisenberg_example_def)
qed

end
